theory Spec2Isabelle
  imports Main "HOL-Library.AList" "HOL-Library.List_Lexorder" "HOL-Library.Char_ord"
begin

unbundle bit_operations_syntax

section \<open>Song-asset download authorisation and cache: core/download.py\<close>

text \<open>
  A shallow embedding of \<^verbatim>\<open>core/download.py\<close>. Every function of the module that
  touches the file system, the clock, the two databases or the random source is a HOL
  function that takes what it reads as an argument and returns what it writes.
  Exceptions are values of \<open>py_error\<close>.
\<close>

subsection \<open>Python values and exceptions\<close>

datatype py_error =
    KeyError | TypeError | ValueError | AttributeError | IndexError
  | JSONDecodeError | NoAccess

subsection \<open>Users and download tokens\<close>

text \<open>
  \<^verbatim>\<open>User\<close> / \<^verbatim>\<open>UserInfo\<close> live in \<^verbatim>\<open>core/user.py\<close>; this module reads
  four attributes of them: \<^verbatim>\<open>user_id\<close>, \<^verbatim>\<open>packs\<close>, \<^verbatim>\<open>singles\<close> and
  \<^verbatim>\<open>world_songs\<close>.
\<close>

record user =
  user_id :: int
  user_packs :: "string list"
  user_singles :: "string list"
  user_world_songs :: "string list"

text \<open>A row of the table \<^verbatim>\<open>download_token(user_id, song_id, file_name, token, time)\<close>.\<close>

record token_row =
  tk_user_id :: int
  tk_song_id :: "string option"
  tk_file_name :: "string option"
  tk_token :: "string option"
  tk_time :: "int option"

text \<open>The attributes of a \<^verbatim>\<open>UserDownload\<close> object; \<open>None\<close> is Python's \<^verbatim>\<open>None\<close>.\<close>

record user_download =
  ud_user :: "user option"
  ud_song_id :: "string option"
  ud_file_name :: "string option"
  ud_token :: "string option"
  ud_token_time :: "int option"

text \<open>\<^verbatim>\<open>UserDownload.__init__(c_m, user)\<close>.\<close>

definition UserDownload :: "user option \<Rightarrow> user_download" where
  "UserDownload u =
     \<lparr>ud_user = u, ud_song_id = None, ud_file_name = None,
      ud_token = None, ud_token_time = None\<rparr>"

text \<open>
  What the module takes from outside: \<^verbatim>\<open>md5\<close> of \<^verbatim>\<open>core/util.py\<close>, Python's
  \<^verbatim>\<open>str\<close> on integers, the text of the \<open>k\<close>-th draw \<^verbatim>\<open>str(os.urandom(8))\<close>, and
  Flask's \<^verbatim>\<open>url_for('download', file_path=..., t=..., _external=True)\<close>.
\<close>

record external =
  md5 :: "string \<Rightarrow> string"
  str_int :: "int \<Rightarrow> string"
  urandom8 :: "nat \<Rightarrow> string"
  url_for :: "string \<Rightarrow> string option \<Rightarrow> string"


text \<open>
  \<^verbatim>\<open>generate_token\<close>: \<open>now\<close> is \<^verbatim>\<open>int(time())\<close>, \<open>k\<close> numbers the random draw.
  \<^verbatim>\<open>self.token_time\<close> is assigned first, so it is set even when the second statement
  raises: \<^verbatim>\<open>self.user.user_id\<close> on a \<^verbatim>\<open>None\<close> user is an AttributeError, and
  adding \<^verbatim>\<open>None\<close> to a string is a TypeError. The first component is the exception
  raised, if any.
\<close>

definition generate_token ::
  "external \<Rightarrow> nat \<Rightarrow> int \<Rightarrow> user_download \<Rightarrow> py_error option \<times> user_download" where
  "generate_token ext k now x =
     (let x1 = x\<lparr>ud_token_time := Some now\<rparr> in
      case ud_user x1 of
        None \<Rightarrow> (Some AttributeError, x1)
      | Some u \<Rightarrow>
          (case (ud_song_id x1, ud_file_name x1) of
             (Some s, Some f) \<Rightarrow>
               (None, x1\<lparr>ud_token :=
                  Some (md5 ext (str_int ext (user_id u) @ s @ f @ str_int ext now @ urandom8 ext k))\<rparr>)
           | _ \<Rightarrow> (Some TypeError, x1)))"




subsection \<open>JSON values as Python sees them\<close>

text \<open>
  What \<^verbatim>\<open>json.loads\<close> returns: \<^verbatim>\<open>None\<close>, booleans, integers, strings, lists and
  dicts with string keys. An object is given as the dict \<^verbatim>\<open>json.loads\<close> builds, its keys
  distinct. Floating-point numbers are left out of the model.
\<close>

datatype json =
    JNull | JBool bool | JInt int | JStr string
  | JList "json list" | JObj "(string \<times> json) list"

text \<open>Truth value of a Python object in a condition.\<close>

fun truthy :: "json \<Rightarrow> bool" where
  "truthy JNull = False"
| "truthy (JBool b) = b"
| "truthy (JInt n) = (n \<noteq> 0)"
| "truthy (JStr s) = (s \<noteq> [])"
| "truthy (JList l) = (l \<noteq> [])"
| "truthy (JObj ob) = (ob \<noteq> [])"

text \<open>\<^verbatim>\<open>k in s\<close> on two strings: \<open>k\<close> occurs in \<open>s\<close> as a contiguous piece.\<close>

definition str_contains :: "string \<Rightarrow> string \<Rightarrow> bool" where
  "str_contains k s = list_ex (\<lambda>i. take (length k) (drop i s) = k) [0 ..< Suc (length s)]"

text \<open>
  \<^verbatim>\<open>k in x\<close> for a string \<open>k\<close>: key of a dict, piece of a string, element of a list;
  a TypeError on anything else.
\<close>

fun py_in :: "string \<Rightarrow> json \<Rightarrow> py_error + bool" where
  "py_in k (JObj ob) = Inr (k \<in> set (map fst ob))"
| "py_in k (JStr s) = Inr (str_contains k s)"
| "py_in k (JList l) = Inr (JStr k \<in> set l)"
| "py_in k _ = Inl TypeError"

text \<open>\<^verbatim>\<open>x[k]\<close> for a string \<open>k\<close>: a KeyError on a dict without it, a TypeError on anything else.\<close>

fun py_getitem :: "json \<Rightarrow> string \<Rightarrow> py_error + json" where
  "py_getitem (JObj ob) k = (case map_of ob k of None \<Rightarrow> Inl KeyError | Some v \<Rightarrow> Inr v)"
| "py_getitem _ k = Inl TypeError"

text \<open>\<^verbatim>\<open>x.get(k, d)\<close>: only dicts have the method.\<close>

fun py_get :: "json \<Rightarrow> string \<Rightarrow> json \<Rightarrow> py_error + json" where
  "py_get (JObj ob) k d = Inr (case map_of ob k of None \<Rightarrow> d | Some v \<Rightarrow> v)"
| "py_get _ k d = Inl AttributeError"

text \<open>
  \<^verbatim>\<open>for i in x\<close>: the elements of a list, the characters of a string, the keys of a dict;
  a TypeError on anything else.
\<close>

fun py_iter :: "json \<Rightarrow> py_error + json list" where
  "py_iter (JList l) = Inr l"
| "py_iter (JStr s) = Inr (map (\<lambda>c. JStr [c]) s)"
| "py_iter (JObj ob) = Inr (map (\<lambda>p. JStr (fst p)) ob)"
| "py_iter _ = Inl TypeError"

text \<open>\<^verbatim>\<open>v == n\<close> for an integer \<open>n\<close>: \<^verbatim>\<open>True\<close> is 1 and \<^verbatim>\<open>False\<close> is 0.\<close>

fun py_eq_int :: "json \<Rightarrow> int \<Rightarrow> bool" where
  "py_eq_int (JInt m) n = (m = n)"
| "py_eq_int (JBool b) n = ((if b then 1 else 0) = n)"
| "py_eq_int _ n = False"

text \<open>\<^verbatim>\<open>1 << v\<close>: a ValueError on a negative count, a TypeError on a non-integer.\<close>

fun py_lshift1 :: "json \<Rightarrow> py_error + int" where
  "py_lshift1 (JInt n) = (if n < 0 then Inl ValueError else Inr (push_bit (nat n) 1))"
| "py_lshift1 (JBool b) = Inr (if b then 2 else 1)"
| "py_lshift1 _ = Inl TypeError"


text \<open>
  Keys of dicts and elements of sets: lists and dicts are unhashable, and Python
  identifies \<^verbatim>\<open>True\<close> with 1 and \<^verbatim>\<open>False\<close> with 0.
\<close>

fun hashable :: "json \<Rightarrow> bool" where
  "hashable (JList l) = False"
| "hashable (JObj ob) = False"
| "hashable _ = True"

fun py_key :: "json \<Rightarrow> json" where
  "py_key (JBool b) = JInt (if b then 1 else 0)"
| "py_key v = v"


definition py_bind :: "py_error + 'a \<Rightarrow> ('a \<Rightarrow> py_error + 'b) \<Rightarrow> py_error + 'b" where
  "py_bind m f = (case m of Inl e \<Rightarrow> Inl e | Inr v \<Rightarrow> f v)"

subsection \<open>SonglistParser\<close>

definition FILE_NAMES :: "string list" where
  "FILE_NAMES = [''0.aff'', ''1.aff'', ''2.aff'', ''3.aff'', ''4.aff'',
                 ''base.ogg'', ''3.ogg'', ''video.mp4'', ''video_audio.ogg'',
                 ''video_720.mp4'', ''video_1080.mp4'']"

text \<open>
  The class attributes of \<^verbatim>\<open>SonglistParser\<close>, shared by the whole process. The bitmap
  of a song is a Python integer.
\<close>

record songlist =
  has_songlist :: bool
  songs :: "json \<rightharpoonup> int"
  pack_info :: "json \<rightharpoonup> json set"
  free_songs :: "json set"
  world_songs :: "json set"

text \<open>The class as the module defines it, before any catalogue is parsed.\<close>

definition SonglistParser :: songlist where
  "SonglistParser =
     \<lparr>has_songlist = False, songs = Map.empty, pack_info = Map.empty,
      free_songs = {}, world_songs = {}\<rparr>"

text \<open>\<^verbatim>\<open>is_available_file(song_id, file_name)\<close>.\<close>

definition is_available_file :: "songlist \<Rightarrow> string \<Rightarrow> string \<Rightarrow> bool" where
  "is_available_file cls song_id file_name =
     (case songs cls (JStr song_id) of
        None \<Rightarrow> file_name \<in> set FILE_NAMES
      | Some rule \<Rightarrow>
          list_ex (\<lambda>(i, v). file_name = v \<and> rule AND push_bit i 1 \<noteq> 0)
            (enumerate 0 FILE_NAMES))"

text \<open>
  \<^verbatim>\<open>i if i[-1] != '3' else i[:-1]\<close> on a non-empty string: one final \<^verbatim>\<open>'3'\<close> is cut.
\<close>

definition cut_last_3 :: "string \<Rightarrow> string" where
  "cut_last_3 i = (if last i \<noteq> CHR ''3'' then i else butlast i)"

text \<open>
  \<^verbatim>\<open>get_user_unlocks(user)\<close>; \<open>single\<close> is \<^verbatim>\<open>Constant.SINGLE_PACK_NAME\<close>. The
  elements of \<^verbatim>\<open>x.world_songs & set(user.world_songs)\<close> are the user's world songs that
  the class lists; \<^verbatim>\<open>i[-1]\<close> on an empty one is an IndexError.
\<close>

definition get_user_unlocks :: "songlist \<Rightarrow> string \<Rightarrow> user option \<Rightarrow> py_error + json set" where
  "get_user_unlocks x single usr =
     (case usr of
        None \<Rightarrow> Inr {}
      | Some u \<Rightarrow>
          (let r1 = fold (\<lambda>i r. case pack_info x (JStr i) of None \<Rightarrow> r | Some S \<Rightarrow> r \<union> S)
                      (user_packs u) {};
               r2 = (case pack_info x (JStr single) of
                       None \<Rightarrow> r1
                     | Some S \<Rightarrow> r1 \<union> (S \<inter> JStr ` set (user_singles u)));
               ws = filter (\<lambda>i. JStr i \<in> world_songs x) (user_world_songs u)
           in if [] \<in> set ws then Inl IndexError
              else Inr (r2 \<union> JStr ` cut_last_3 ` set ws \<union> free_songs x)))"

text \<open>
  The loop of \<^verbatim>\<open>parse_one\<close> over the difficulties when \<^verbatim>\<open>remote_dl\<close> is truthy.
\<close>

fun parse_one_remote :: "int \<Rightarrow> json list \<Rightarrow> py_error + int" where
  "parse_one_remote r [] = Inr r"
| "parse_one_remote r (i # rest) =
     py_bind (py_getitem i ''ratingClass'') (\<lambda>rc.
     py_bind (if py_eq_int rc 3
              then py_bind (py_get i ''audioOverride'' (JBool False)) (\<lambda>a. Inr (truthy a))
              else Inr False) (\<lambda>override.
     py_bind (py_lshift1 rc) (\<lambda>b.
       parse_one_remote ((if override then r OR 64 else r) OR b) rest)))"

text \<open>The loop over the difficulties when \<^verbatim>\<open>remote_dl\<close> is falsy or absent.\<close>

fun parse_one_local :: "int \<Rightarrow> json list \<Rightarrow> py_error + int" where
  "parse_one_local r [] = Inr r"
| "parse_one_local r (i # rest) =
     py_bind (py_getitem i ''ratingClass'') (\<lambda>rc.
       if py_eq_int rc 3
       then py_bind (py_get i ''audioOverride'' (JBool False)) (\<lambda>a.
              parse_one_local (if truthy a then r OR 8 OR 64 else r OR 8) rest)
       else parse_one_local r rest)"

text \<open>The loop over \<^verbatim>\<open>additional_files\<close>.\<close>

fun parse_one_extra :: "int \<Rightarrow> json list \<Rightarrow> py_error + int" where
  "parse_one_extra r [] = Inr r"
| "parse_one_extra r (extra_file # rest) =
     py_bind (py_getitem extra_file ''file_name'') (\<lambda>x.
       parse_one_extra
         (if x = JStr (FILE_NAMES ! 7) then r OR 128
          else if x = JStr (FILE_NAMES ! 8) then r OR 256
          else if x = JStr (FILE_NAMES ! 9) then r OR 512
          else if x = JStr (FILE_NAMES ! 10) then r OR 1024
          else r) rest)"

text \<open>
  \<^verbatim>\<open>parse_one(song)\<close>: \<open>None\<close> is the empty dict returned for an entry without
  \<^verbatim>\<open>id\<close>, \<open>Some (k, r)\<close> the dict \<^verbatim>\<open>{k: r}\<close>.
\<close>

definition parse_one :: "json \<Rightarrow> py_error + (json \<times> int) option" where
  "parse_one song =
     py_bind (py_in ''id'' song) (\<lambda>has_id.
       if \<not> has_id then Inr None
       else
         py_bind (py_in ''remote_dl'' song) (\<lambda>has_rd.
         py_bind (if has_rd
                  then py_bind (py_getitem song ''remote_dl'') (\<lambda>v. Inr (truthy v))
                  else Inr False) (\<lambda>remote_dl.
         py_bind (py_get song ''difficulties'' (JList [])) (\<lambda>d.
         py_bind (py_iter d) (\<lambda>ds.
         py_bind (if remote_dl then parse_one_remote (0 OR 32) ds else parse_one_local 0 ds) (\<lambda>r1.
         py_bind (py_get song ''additional_files'' (JList [])) (\<lambda>a.
         py_bind (py_iter a) (\<lambda>extras.
         py_bind (parse_one_extra r1 extras) (\<lambda>r2.
         py_bind (py_getitem song ''id'') (\<lambda>k.
           if hashable k then Inr (Some (py_key k, r2)) else Inl TypeError))))))))))"








subsection \<open>Reading a catalogue entry\<close>

text \<open>
  A difficulty of rating class 3, one that also has a truthy \<^verbatim>\<open>audioOverride\<close>, and an
  entry of \<^verbatim>\<open>additional_files\<close> that names a given file.
\<close>

definition rating_class_3 :: "json \<Rightarrow> bool" where
  "rating_class_3 d = (case py_getitem d ''ratingClass'' of Inr rc \<Rightarrow> py_eq_int rc 3 | Inl e \<Rightarrow> False)"

definition rating_class_3_override :: "json \<Rightarrow> bool" where
  "rating_class_3_override d =
     (rating_class_3 d \<and>
      (case py_get d ''audioOverride'' (JBool False) of Inr a \<Rightarrow> truthy a | Inl e \<Rightarrow> False))"

definition lists_file :: "string \<Rightarrow> json \<Rightarrow> bool" where
  "lists_file f e = (py_getitem e ''file_name'' = Inr (JStr f))"

text \<open>
  A catalogue entry without remote download that lists a video: a rating-class-3
  difficulty and \<^verbatim>\<open>video.mp4\<close> among its additional files.
\<close>

definition byd_video_song :: json where
  "byd_video_song =
     JObj [(''id'', JStr ''abc''), (''remote_dl'', JBool False),
           (''difficulties'', JList [JObj [(''ratingClass'', JInt 0)], JObj [(''ratingClass'', JInt 3)]]),
           (''additional_files'', JList [JObj [(''file_name'', JStr ''video.mp4'')]])]"

subsection \<open>The unlocked set, as a set expression\<close>

text \<open>The songs of a pack, none for a pack the class does not know.\<close>

definition pack_songs :: "songlist \<Rightarrow> string \<Rightarrow> json set" where
  "pack_songs x p = (case pack_info x (JStr p) of None \<Rightarrow> {} | Some S \<Rightarrow> S)"

text \<open>The world songs of the class that the user has.\<close>

definition user_world_unlocks :: "songlist \<Rightarrow> user \<Rightarrow> string set" where
  "user_world_unlocks x u = {i \<in> set (user_world_songs u). JStr i \<in> world_songs x}"

text \<open>
  Python's \<^verbatim>\<open>i.rstrip('3')\<close>, which cuts every final \<^verbatim>\<open>'3'\<close>, and the unlocked set
  as the specification words it, with \<^verbatim>\<open>rstrip\<close> in the place of \<open>cut_last_3\<close>.
\<close>

definition rstrip_3 :: "string \<Rightarrow> string" where
  "rstrip_3 i = rev (dropWhile (\<lambda>c. c = CHR ''3'') (rev i))"

definition spec_user_unlocks :: "songlist \<Rightarrow> string \<Rightarrow> user \<Rightarrow> json set" where
  "spec_user_unlocks x single u =
     (\<Union> (pack_songs x ` set (user_packs u)))
     \<union> (pack_songs x single \<inter> JStr ` set (user_singles u))
     \<union> JStr ` rstrip_3 ` user_world_unlocks x u
     \<union> free_songs x"

text \<open>
  A class after parsing a free song named \<^verbatim>\<open>song3\<close> that has a rating-class-3
  difficulty, and a user who has unlocked that difficulty in world mode.
\<close>

definition song3_class :: songlist where
  "song3_class =
     \<lparr>has_songlist = False, songs = [JStr ''song3'' \<mapsto> 8], pack_info = Map.empty,
      free_songs = {JStr ''song3''}, world_songs = {JStr ''song33''}\<rparr>"

definition song3_user :: user where
  "song3_user = \<lparr>user_id = 7, user_packs = [], user_singles = [], user_world_songs = [''song33'']\<rparr>"

text \<open>A class with a pack, single purchases and a world song, and a user of each.\<close>

definition packs_class :: songlist where
  "packs_class =
     \<lparr>has_songlist = False, songs = Map.empty,
      pack_info = [JStr ''core'' \<mapsto> {JStr ''a'', JStr ''b''}, JStr ''single'' \<mapsto> {JStr ''c'', JStr ''d''}],
      free_songs = {JStr ''f''}, world_songs = {JStr ''w'', JStr ''f3''}\<rparr>"

definition packs_user :: user where
  "packs_user =
     \<lparr>user_id = 7, user_packs = [''core'', ''gone''], user_singles = [''d'', ''e''],
      user_world_songs = [''f3'', ''z'']\<rparr>"

subsection \<open>The song tree on disk\<close>

text \<open>
  What the module can see of \<^verbatim>\<open>Constant.SONG_FILE_FOLDER_PATH\<close>. The root, when it is
  a directory, has a modification time and entries; an entry of the root is a song
  directory, with its own modification time and entries, or something else; an entry of
  a song directory is a regular file, with its size, its modification time and the MD5
  of its bytes (what \<^verbatim>\<open>get_file_md5\<close> of \<^verbatim>\<open>core/util.py\<close> computes), or something
  else. Entries are listed in the order \<^verbatim>\<open>os.scandir\<close> yields them; the names of one
  directory are distinct, and a path is resolved to the first entry of its name. Song ids
  are single path components.

  The tree is fixed while one function of the module runs. The handlers of
  \<^verbatim>\<open>FileNotFoundError\<close> in the source cover a directory that disappears between two
  system calls; with a fixed tree of distinct names they are not reached.
\<close>

datatype file_node = RegFile int int string | OtherFile

datatype root_node = SongDir int "(string \<times> file_node) list" | OtherNode

record song_root =
  root_mtime_ns :: int
  root_entries :: "(string \<times> root_node) list"

type_synonym tree = "song_root option"

text \<open>\<^verbatim>\<open>entry.is_dir()\<close> and \<^verbatim>\<open>entry.is_file()\<close> of a listed entry.\<close>

fun is_dir :: "root_node \<Rightarrow> bool" where
  "is_dir (SongDir m es) = True"
| "is_dir OtherNode = False"

fun is_file :: "file_node \<Rightarrow> bool" where
  "is_file (RegFile sz m d) = True"
| "is_file OtherFile = False"

text \<open>
  The directory \<^verbatim>\<open>os.path.join(SONG_FILE_FOLDER_PATH, song_id)\<close>: its modification time
  and entries, or \<open>None\<close> when \<^verbatim>\<open>os.path.isdir\<close> is false.
\<close>

definition song_dir :: "tree \<Rightarrow> string \<Rightarrow> (int \<times> (string \<times> file_node) list) option" where
  "song_dir t song_id =
     (case t of
        None \<Rightarrow> None
      | Some root \<Rightarrow>
          (case map_of (root_entries root) song_id of
             Some (SongDir m es) \<Rightarrow> Some (m, es)
           | _ \<Rightarrow> None))"

text \<open>
  The file \<^verbatim>\<open>os.path.join(SONG_FILE_FOLDER_PATH, song_id, file_name)\<close>: size, modification
  time and MD5, or \<open>None\<close> when \<^verbatim>\<open>os.path.isfile\<close> is false.
\<close>

definition song_file :: "tree \<Rightarrow> string \<Rightarrow> string \<Rightarrow> (int \<times> int \<times> string) option" where
  "song_file t song_id file_name =
     (case song_dir t song_id of
        None \<Rightarrow> None
      | Some (m, es) \<Rightarrow>
          (case map_of es file_name of
             Some (RegFile sz fm d) \<Rightarrow> Some (sz, fm, d)
           | _ \<Rightarrow> None))"

subsection \<open>The metadata store of SongFileCache\<close>

text \<open>
  The three tables of \<^verbatim>\<open>song_cache.db\<close>, each a list of rows. \<^verbatim>\<open>ensure_schema\<close>
  creates them when they are missing and changes no row, so the model has them always.
  The \<^verbatim>\<open>value\<close> column of \<^verbatim>\<open>meta\<close> holds the decimal text of an integer; the
  model keeps the integer.
\<close>

record songs_row =
  sr_song_id :: string
  sr_dir_mtime_ns :: int
  sr_last_scan :: int

record files_row =
  fr_song_id :: string
  fr_file_name :: string
  fr_size :: int
  fr_mtime_ns :: int
  fr_md5 :: "string option"
  fr_last_seen :: int

record cache_db =
  meta_tbl :: "(string \<times> int) list"
  songs_tbl :: "songs_row list"
  files_tbl :: "files_row list"

text \<open>\<^verbatim>\<open>SELECT ... FROM songs WHERE song_id=?\<close> and the same on \<^verbatim>\<open>files\<close>, with \<^verbatim>\<open>fetchone\<close>.\<close>

definition select_song :: "cache_db \<Rightarrow> string \<Rightarrow> songs_row option" where
  "select_song db song_id = find (\<lambda>r. sr_song_id r = song_id) (songs_tbl db)"

definition select_file :: "cache_db \<Rightarrow> string \<Rightarrow> string \<Rightarrow> files_row option" where
  "select_file db song_id file_name =
     find (\<lambda>r. fr_song_id r = song_id \<and> fr_file_name r = file_name) (files_tbl db)"

text \<open>\<^verbatim>\<open>INSERT OR REPLACE\<close>: the row of the same primary key goes, the new row is added.\<close>

definition replace_song :: "songs_row \<Rightarrow> cache_db \<Rightarrow> cache_db" where
  "replace_song row db =
     db\<lparr>songs_tbl := filter (\<lambda>r. sr_song_id r \<noteq> sr_song_id row) (songs_tbl db) @ [row]\<rparr>"

definition replace_file :: "files_row \<Rightarrow> cache_db \<Rightarrow> cache_db" where
  "replace_file row db =
     db\<lparr>files_tbl :=
          filter (\<lambda>r. \<not> (fr_song_id r = fr_song_id row \<and> fr_file_name r = fr_file_name row))
            (files_tbl db) @ [row]\<rparr>"

text \<open>\<^verbatim>\<open>_delete_song\<close> and \<^verbatim>\<open>_delete_file\<close>.\<close>

definition delete_song :: "string \<Rightarrow> cache_db \<Rightarrow> cache_db" where
  "delete_song song_id db =
     db\<lparr>files_tbl := filter (\<lambda>r. fr_song_id r \<noteq> song_id) (files_tbl db),
        songs_tbl := filter (\<lambda>r. sr_song_id r \<noteq> song_id) (songs_tbl db)\<rparr>"

definition delete_file :: "string \<Rightarrow> string \<Rightarrow> cache_db \<Rightarrow> cache_db" where
  "delete_file song_id file_name db =
     db\<lparr>files_tbl :=
          filter (\<lambda>r. \<not> (fr_song_id r = song_id \<and> fr_file_name r = file_name)) (files_tbl db)\<rparr>"

text \<open>
  The body of the last loop of \<^verbatim>\<open>sync_song\<close>, for one file name. \<open>pre\<close> is
  \<^verbatim>\<open>Config.SONG_FILE_HASH_PRE_CALCULATE\<close>; \<^verbatim>\<open>not existing['md5']\<close> holds for NULL and
  for the empty text.
\<close>

definition sync_file :: "tree \<Rightarrow> bool \<Rightarrow> int \<Rightarrow> string \<Rightarrow> string \<Rightarrow> cache_db \<Rightarrow> cache_db" where
  "sync_file t pre now song_id file_name db =
     (case song_file t song_id file_name of
        None \<Rightarrow> delete_file song_id file_name db
      | Some (sz, fm, digest) \<Rightarrow>
          (case select_file db song_id file_name of
             Some existing \<Rightarrow>
               if fr_size existing = sz \<and> fr_mtime_ns existing = fm then
                 (if pre \<and> (fr_md5 existing = None \<or> fr_md5 existing = Some [])
                  then db\<lparr>files_tbl :=
                         map (\<lambda>r. if fr_song_id r = song_id \<and> fr_file_name r = file_name
                                   then r\<lparr>fr_md5 := Some digest, fr_last_seen := now\<rparr> else r)
                           (files_tbl db)\<rparr>
                  else db\<lparr>files_tbl :=
                         map (\<lambda>r. if fr_song_id r = song_id \<and> fr_file_name r = file_name
                                   then r\<lparr>fr_last_seen := now\<rparr> else r)
                           (files_tbl db)\<rparr>)
               else
                 replace_file
                   \<lparr>fr_song_id = song_id, fr_file_name = file_name, fr_size = sz, fr_mtime_ns = fm,
                    fr_md5 = (if pre then Some digest else None), fr_last_seen = now\<rparr> db
           | None \<Rightarrow>
               replace_file
                 \<lparr>fr_song_id = song_id, fr_file_name = file_name, fr_size = sz, fr_mtime_ns = fm,
                  fr_md5 = (if pre then Some digest else None), fr_last_seen = now\<rparr> db))"

text \<open>
  \<^verbatim>\<open>sync_song(song_id, dir_mtime_ns)\<close>; \<open>now\<close> is \<^verbatim>\<open>int(time())\<close>, and \<open>None\<close> for
  \<open>dir_mtime_ns\<close> is the default argument, replaced by the directory's own time.
\<close>

definition sync_song ::
  "tree \<Rightarrow> songlist \<Rightarrow> bool \<Rightarrow> int \<Rightarrow> string \<Rightarrow> int option \<Rightarrow> cache_db \<Rightarrow> cache_db" where
  "sync_song t cls pre now song_id dir_mtime_ns db =
     (case song_dir t song_id of
        None \<Rightarrow> delete_song song_id db
      | Some (m, entries) \<Rightarrow>
          (let mt = (case dir_mtime_ns of None \<Rightarrow> m | Some v \<Rightarrow> v) in
           if (case select_song db song_id of None \<Rightarrow> False | Some row \<Rightarrow> sr_dir_mtime_ns row = mt)
           then db
           else
             (let db1 = replace_song
                          \<lparr>sr_song_id = song_id, sr_dir_mtime_ns = mt, sr_last_scan = now\<rparr> db;
                  file_names = map fst (filter (\<lambda>(name, node). is_file node \<and>
                                   is_available_file cls song_id name) entries)
              in if file_names = []
                 then db1\<lparr>files_tbl := filter (\<lambda>r. fr_song_id r \<noteq> song_id) (files_tbl db1)\<rparr>
                 else
                   fold (sync_file t pre now song_id) file_names
                     (db1\<lparr>files_tbl :=
                            filter (\<lambda>r. \<not> (fr_song_id r = song_id \<and> fr_file_name r \<notin> set file_names))
                              (files_tbl db1)\<rparr>))))"

text \<open>
  The body of the loop of \<^verbatim>\<open>sync_all\<close>, for one listed directory. The
  \<^verbatim>\<open>continue\<close> after a failed \<^verbatim>\<open>os.stat\<close> is the branch of a listed directory
  that cannot be resolved.
\<close>

definition sync_all_step :: "tree \<Rightarrow> songlist \<Rightarrow> bool \<Rightarrow> int \<Rightarrow> string \<Rightarrow> cache_db \<Rightarrow> cache_db" where
  "sync_all_step t cls pre now song_id db =
     (case song_dir t song_id of
        None \<Rightarrow> db
      | Some (m, es) \<Rightarrow> sync_song t cls pre now song_id (Some m) db)"

text \<open>\<^verbatim>\<open>sync_all()\<close>.\<close>

definition sync_all :: "tree \<Rightarrow> songlist \<Rightarrow> bool \<Rightarrow> int \<Rightarrow> cache_db \<Rightarrow> cache_db" where
  "sync_all t cls pre now db =
     (case t of
        None \<Rightarrow> db
      | Some root \<Rightarrow>
          (let song_ids = map fst (filter (\<lambda>(name, node). is_dir node \<and> name \<noteq> ''.'' \<and> name \<noteq> ''..'')
                                     (root_entries root));
               db1 = fold (sync_all_step t cls pre now) song_ids db
           in if song_ids \<noteq> []
              then db1\<lparr>songs_tbl := filter (\<lambda>r. sr_song_id r \<in> set song_ids) (songs_tbl db1),
                       files_tbl := filter (\<lambda>r. fr_song_id r \<in> set song_ids) (files_tbl db1)\<rparr>
              else db1\<lparr>songs_tbl := [], files_tbl := []\<rparr>))"

text \<open>
  \<^verbatim>\<open>SongFileCache.get_all_song_ids(root_mtime_ns)\<close>: the sorted song ids and the store
  after the call. \<^verbatim>\<open>ORDER BY\<close> on a text column compares the bytes of the strings.
\<close>

definition get_all_song_ids ::
  "tree \<Rightarrow> songlist \<Rightarrow> bool \<Rightarrow> int \<Rightarrow> int \<Rightarrow> cache_db \<Rightarrow> string list \<times> cache_db" where
  "get_all_song_ids t cls pre now rmt db =
     (let db1 = (if map_of (meta_tbl db) ''root_mtime_ns'' \<noteq> Some rmt
                 then (let d = sync_all t cls pre now db
                       in d\<lparr>meta_tbl := AList.update ''root_mtime_ns'' rmt (meta_tbl d)\<rparr>)
                 else db)
      in (sort (map sr_song_id (songs_tbl db1)), db1))"

text \<open>\<^verbatim>\<open>SongFileCache.get_song_file_names(song_id, dir_mtime_ns)\<close>.\<close>

definition get_song_file_names ::
  "tree \<Rightarrow> songlist \<Rightarrow> bool \<Rightarrow> int \<Rightarrow> string \<Rightarrow> int \<Rightarrow> cache_db \<Rightarrow> string list \<times> cache_db" where
  "get_song_file_names t cls pre now song_id dir_mtime_ns db =
     (let db1 = (if (case select_song db song_id of
                       None \<Rightarrow> True
                     | Some row \<Rightarrow> sr_dir_mtime_ns row \<noteq> dir_mtime_ns)
                 then sync_song t cls pre now song_id (Some dir_mtime_ns) db
                 else db)
      in (sort (map fr_file_name (filter (\<lambda>r. fr_song_id r = song_id) (files_tbl db1))), db1))"

text \<open>
  \<^verbatim>\<open>SongFileCache.get_song_file_md5(song_id, file_name, file_mtime_ns, file_size)\<close>:
  the hash, \<open>None\<close> for Python's \<^verbatim>\<open>None\<close>, and the store after the call.
\<close>

definition cache_get_song_file_md5 ::
  "tree \<Rightarrow> int \<Rightarrow> string \<Rightarrow> string \<Rightarrow> int \<Rightarrow> int \<Rightarrow> cache_db \<Rightarrow> string option \<times> cache_db" where
  "cache_get_song_file_md5 t now song_id file_name file_mtime_ns file_size db =
     (case song_file t song_id file_name of
        None \<Rightarrow> (None, delete_file song_id file_name db)
      | Some (sz, fm, digest) \<Rightarrow>
          (case (case select_file db song_id file_name of
                   None \<Rightarrow> None
                 | Some row \<Rightarrow>
                     if fr_size row = file_size \<and> fr_mtime_ns row = file_mtime_ns \<and>
                        fr_md5 row \<noteq> None \<and> fr_md5 row \<noteq> Some []
                     then fr_md5 row else None) of
             Some h \<Rightarrow>
               (Some h,
                db\<lparr>files_tbl :=
                     map (\<lambda>r. if fr_song_id r = song_id \<and> fr_file_name r = file_name
                               then r\<lparr>fr_last_seen := now\<rparr> else r)
                       (files_tbl db)\<rparr>)
           | None \<Rightarrow>
               (let db1 = replace_file
                            \<lparr>fr_song_id = song_id, fr_file_name = file_name, fr_size = file_size,
                             fr_mtime_ns = file_mtime_ns, fr_md5 = Some digest, fr_last_seen = now\<rparr> db
                in (Some digest,
                    case song_dir t song_id of
                      None \<Rightarrow> db1
                    | Some (m, es) \<Rightarrow>
                        if select_song db1 song_id = None
                        then db1\<lparr>songs_tbl := songs_tbl db1 @
                               [\<lparr>sr_song_id = song_id, sr_dir_mtime_ns = m, sr_last_scan = now\<rparr>]\<rparr>
                        else db1))))"

subsection \<open>The three lru_cache memoizers\<close>

text \<open>
  A \<^verbatim>\<open>functools.lru_cache\<close>: the remembered calls, the most recently used first. A hit
  moves its entry to the front; a miss calls the function, puts the result at the front
  and drops what exceeds \<^verbatim>\<open>maxsize\<close>.
\<close>

definition lru_hit :: "'k \<Rightarrow> 'v \<Rightarrow> ('k \<times> 'v) list \<Rightarrow> ('k \<times> 'v) list" where
  "lru_hit k v c = (k, v) # filter (\<lambda>p. fst p \<noteq> k) c"

definition lru_put :: "nat \<Rightarrow> 'k \<Rightarrow> 'v \<Rightarrow> ('k \<times> 'v) list \<Rightarrow> ('k \<times> 'v) list" where
  "lru_put maxsize k v c = take maxsize ((k, v) # c)"

subsection \<open>What a request reads and what it changes\<close>

text \<open>
  What one request reads and does not change: the song tree, the class attributes of
  \<^verbatim>\<open>SonglistParser\<close>, the clock (read as one value for the request), the external
  functions, and the constants of \<^verbatim>\<open>Config\<close> and \<^verbatim>\<open>Constant\<close>. An unset
  \<^verbatim>\<open>DOWNLOAD_LINK_PREFIX\<close> is the empty string. \<open>set_order\<close> is the order in which
  Python iterates over the set \<^verbatim>\<open>get_user_unlocks(user) & set(song_ids)\<close>, given its
  elements; the language leaves it open.
\<close>

record request_env =
  env_tree :: tree
  env_cls :: songlist
  env_now :: int
  env_ext :: external
  SONG_FILE_HASH_PRE_CALCULATE :: bool
  DOWNLOAD_FORBID_WHEN_NO_ITEM :: bool
  DOWNLOAD_TIME_GAP_LIMIT :: int
  DOWNLOAD_LINK_PREFIX :: string
  SINGLE_PACK_NAME :: string
  set_order :: "string list \<Rightarrow> string list"

text \<open>
  What the process shares and a request may change: the metadata store, the three
  memoizers, and the table \<^verbatim>\<open>download_token\<close> of the primary database.
\<close>

record world =
  store :: cache_db
  md5_cached :: "((string \<times> string \<times> int \<times> int) \<times> string option) list"
  names_cached :: "((string \<times> int) \<times> string list) list"
  ids_cached :: "(int \<times> string list) list"
  download_token :: "token_row list"

text \<open>The attributes of a \<^verbatim>\<open>DownloadList\<close>; a \<^verbatim>\<open>url_flag\<close> of \<^verbatim>\<open>None\<close> is \<open>False\<close>.\<close>

text \<open>
  The dict \<^verbatim>\<open>re\<close> that \<^verbatim>\<open>add_one_song\<close> builds for one song: each of its three keys is
  absent or holds a dict, a list, a dict.
\<close>

record manifest =
  audio :: "(string \<times> json) list option"
  additional_files :: "json list option"
  chart :: "(string \<times> json) list option"

record download_list =
  dl_user :: "user option"
  dl_song_ids :: "string list option"
  dl_url_flag :: bool
  downloads :: "user_download list"
  urls :: "(string \<times> manifest) list"

text \<open>\<^verbatim>\<open>DownloadList.__init__(c_m, user)\<close>.\<close>

definition DownloadList :: "user option \<Rightarrow> download_list" where
  "DownloadList u =
     \<lparr>dl_user = u, dl_song_ids = None, dl_url_flag = False, downloads = [], urls = []\<rparr>"

text \<open>
  The module's \<^verbatim>\<open>get_song_file_md5(song_id, file_name)\<close>, through
  \<^verbatim>\<open>_get_song_file_md5_cached\<close> (\<^verbatim>\<open>maxsize=8192\<close>).
\<close>

definition get_song_file_md5 ::
  "request_env \<Rightarrow> string \<Rightarrow> string \<Rightarrow> world \<Rightarrow> string option \<times> world" where
  "get_song_file_md5 env song_id file_name w =
     (case song_file (env_tree env) song_id file_name of
        None \<Rightarrow> (None, w\<lparr>store := delete_file song_id file_name (store w)\<rparr>)
      | Some (sz, fm, digest) \<Rightarrow>
          (case map_of (md5_cached w) (song_id, file_name, fm, sz) of
             Some v \<Rightarrow> (v, w\<lparr>md5_cached := lru_hit (song_id, file_name, fm, sz) v (md5_cached w)\<rparr>)
           | None \<Rightarrow>
               (case cache_get_song_file_md5 (env_tree env) (env_now env) song_id file_name fm sz (store w) of
                  (v, db) \<Rightarrow>
                    (v, w\<lparr>store := db,
                           md5_cached := lru_put 8192 (song_id, file_name, fm, sz) v (md5_cached w)\<rparr>))))"

text \<open>
  \<^verbatim>\<open>DownloadList.get_one_song_file_names(song_id)\<close>, through
  \<^verbatim>\<open>_get_cached_song_file_names\<close> (\<^verbatim>\<open>maxsize=2048\<close>).
\<close>

definition get_one_song_file_names ::
  "request_env \<Rightarrow> string \<Rightarrow> world \<Rightarrow> string list \<times> world" where
  "get_one_song_file_names env song_id w =
     (case song_dir (env_tree env) song_id of
        None \<Rightarrow> ([], w\<lparr>store := delete_song song_id (store w)\<rparr>)
      | Some (m, es) \<Rightarrow>
          (case map_of (names_cached w) (song_id, m) of
             Some v \<Rightarrow> (v, w\<lparr>names_cached := lru_hit (song_id, m) v (names_cached w)\<rparr>)
           | None \<Rightarrow>
               (case get_song_file_names (env_tree env) (env_cls env) (SONG_FILE_HASH_PRE_CALCULATE env)
                       (env_now env) song_id m (store w) of
                  (v, db) \<Rightarrow>
                    (v, w\<lparr>store := db,
                           names_cached := lru_put 2048 (song_id, m) v (names_cached w)\<rparr>))))"

text \<open>
  \<^verbatim>\<open>DownloadList.get_all_song_ids()\<close>, through \<^verbatim>\<open>_get_all_cached_song_ids\<close>
  (\<^verbatim>\<open>lru_cache()\<close>, whose default \<^verbatim>\<open>maxsize\<close> is 128).
\<close>

definition list_get_all_song_ids :: "request_env \<Rightarrow> world \<Rightarrow> string list \<times> world" where
  "list_get_all_song_ids env w =
     (case env_tree env of
        None \<Rightarrow> ([], w)
      | Some root \<Rightarrow>
          (case map_of (ids_cached w) (root_mtime_ns root) of
             Some v \<Rightarrow> (v, w\<lparr>ids_cached := lru_hit (root_mtime_ns root) v (ids_cached w)\<rparr>)
           | None \<Rightarrow>
               (case get_all_song_ids (env_tree env) (env_cls env) (SONG_FILE_HASH_PRE_CALCULATE env)
                       (env_now env) (root_mtime_ns root) (store w) of
                  (v, db) \<Rightarrow>
                    (v, w\<lparr>store := db,
                           ids_cached := lru_put 128 (root_mtime_ns root) v (ids_cached w)\<rparr>))))"

text \<open>How an f-string prints an attribute that may be \<^verbatim>\<open>None\<close>.\<close>

definition fmt :: "string option \<Rightarrow> string" where
  "fmt v = (case v of None \<Rightarrow> ''None'' | Some s \<Rightarrow> s)"

text \<open>
  The property \<^verbatim>\<open>url\<close> of a \<^verbatim>\<open>UserDownload\<close>; \<open>k\<close> numbers the random draw of
  \<open>generate_token\<close>. The result is the exception or the URL, and the object after it.
\<close>

definition url :: "request_env \<Rightarrow> nat \<Rightarrow> user_download \<Rightarrow> (py_error + string) \<times> user_download" where
  "url env k x =
     (case (if ud_token x = None then generate_token (env_ext env) k (env_now env) x else (None, x)) of
        (Some e, x1) \<Rightarrow> (Inl e, x1)
      | (None, x1) \<Rightarrow>
          (if DOWNLOAD_LINK_PREFIX env \<noteq> []
           then (Inr ((if last (DOWNLOAD_LINK_PREFIX env) \<noteq> CHR ''/''
                       then DOWNLOAD_LINK_PREFIX env @ ''/'' else DOWNLOAD_LINK_PREFIX env)
                      @ fmt (ud_song_id x1) @ ''/'' @ fmt (ud_file_name x1) @ ''?t='' @ fmt (ud_token x1)),
                 x1)
           else (Inr (url_for (env_ext env) (fmt (ud_song_id x1) @ ''/'' @ fmt (ud_file_name x1))
                        (ud_token x1)), x1)))"

text \<open>A hash as a JSON value, and the dict \<^verbatim>\<open>{"checksum": x.hash, "url": x.url}\<close>.\<close>

definition json_hash :: "string option \<Rightarrow> json" where
  "json_hash h = (case h of None \<Rightarrow> JNull | Some v \<Rightarrow> JStr v)"

definition checksum_dict :: "string option \<Rightarrow> string option \<Rightarrow> (string \<times> json) list" where
  "checksum_dict h u =
     (''checksum'', json_hash h) # (case u of None \<Rightarrow> [] | Some v \<Rightarrow> [(''url'', JStr v)])"

definition or_empty :: "'a list option \<Rightarrow> 'a list" where
  "or_empty d = (case d of None \<Rightarrow> [] | Some v \<Rightarrow> v)"

text \<open>
  The \<^verbatim>\<open>if\<close>/\<^verbatim>\<open>elif\<close> chain of \<^verbatim>\<open>add_one_song\<close> for the file name \<open>i\<close>, with the
  hash \<open>h\<close> and, when \<^verbatim>\<open>url_flag\<close> holds, the URL \<open>u\<close>. \<^verbatim>\<open>i[0]\<close> on an empty name
  is an IndexError.
\<close>

definition route_file :: "string \<Rightarrow> string option \<Rightarrow> string option \<Rightarrow> manifest \<Rightarrow> py_error + manifest" where
  "route_file i h u re =
     (if i = ''base.ogg'' then
        Inr (re\<lparr>audio := Some
              (let a = AList.update ''checksum'' (json_hash h) (or_empty (audio re))
               in case u of None \<Rightarrow> a | Some v \<Rightarrow> AList.update ''url'' (JStr v) a)\<rparr>)
      else if i = ''3.ogg'' then
        Inr (re\<lparr>audio := Some (AList.update ''3'' (JObj (checksum_dict h u)) (or_empty (audio re)))\<rparr>)
      else if i \<in> {''video.mp4'', ''video_audio.ogg'', ''video_720.mp4'', ''video_1080.mp4''} then
        Inr (re\<lparr>additional_files := Some
              (or_empty (additional_files re) @ [JObj (checksum_dict h u @ [(''file_name'', JStr i)])])\<rparr>)
      else
        (case i of
           [] \<Rightarrow> Inl IndexError
         | c # rest \<Rightarrow>
             Inr (re\<lparr>chart := Some (AList.update [c] (JObj (checksum_dict h u)) (or_empty (chart re)))\<rparr>)))"

text \<open>
  One round of the loop of \<^verbatim>\<open>add_one_song\<close>. The new \<^verbatim>\<open>UserDownload\<close> is appended to
  \<^verbatim>\<open>self.downloads\<close> at once and changed afterwards; the list holds the object, so it
  shows the object as it is in the end. The hash is taken before the URL.
\<close>

definition add_one_file ::
  "request_env \<Rightarrow> bool \<Rightarrow> user option \<Rightarrow> string \<Rightarrow> string
     \<Rightarrow> world \<times> user_download list \<times> manifest
     \<Rightarrow> py_error option \<times> world \<times> user_download list \<times> manifest" where
  "add_one_file env flag usr song_id i st =
     (case st of (w, ds, re) \<Rightarrow>
        (let x = (UserDownload usr)\<lparr>ud_song_id := Some song_id, ud_file_name := Some i\<rparr> in
         case get_song_file_md5 env song_id i w of
           (h, w1) \<Rightarrow>
             (case (if flag then url env (length ds) x else (Inr [], x)) of
                (Inl e, x1) \<Rightarrow> (Some e, w1, ds @ [x1], re)
              | (Inr u, x1) \<Rightarrow>
                  (case route_file i h (if flag then Some u else None) re of
                     Inl e \<Rightarrow> (Some e, w1, ds @ [x1], re)
                   | Inr re1 \<Rightarrow> (None, w1, ds @ [x1], re1)))))"

fun add_files ::
  "request_env \<Rightarrow> bool \<Rightarrow> user option \<Rightarrow> string \<Rightarrow> string list
     \<Rightarrow> world \<times> user_download list \<times> manifest
     \<Rightarrow> py_error option \<times> world \<times> user_download list \<times> manifest" where
  "add_files env flag usr song_id [] st = (None, st)"
| "add_files env flag usr song_id (i # rest) st =
     (case add_one_file env flag usr song_id i st of
        (Some e, st1) \<Rightarrow> (Some e, st1)
      | (None, st1) \<Rightarrow> add_files env flag usr song_id rest st1)"

text \<open>
  \<^verbatim>\<open>add_one_song(song_id)\<close>: the exception raised, if any, with the world and the object
  after it. \<^verbatim>\<open>self.urls.update({song_id: re})\<close> keeps the place of a key that is there
  and puts a new key last.
\<close>

definition add_one_song ::
  "request_env \<Rightarrow> string \<Rightarrow> world \<times> download_list \<Rightarrow> py_error option \<times> world \<times> download_list" where
  "add_one_song env song_id st =
     (case st of (w, self) \<Rightarrow>
        (case get_one_song_file_names env song_id w of
           (names, w1) \<Rightarrow>
             (case add_files env (dl_url_flag self) (dl_user self) song_id names
                     (w1, downloads self, \<lparr>audio = None, additional_files = None, chart = None\<rparr>) of
                (Some e, w2, ds, re) \<Rightarrow> (Some e, w2, self\<lparr>downloads := ds\<rparr>)
              | (None, w2, ds, re) \<Rightarrow>
                  (None, w2, self\<lparr>downloads := ds, urls := AList.update song_id re (urls self)\<rparr>))))"

text \<open>
  The two loops of \<^verbatim>\<open>add_songs\<close>: over all songs, and over the requested songs whose
  directory exists.
\<close>

fun add_each_song ::
  "request_env \<Rightarrow> bool \<Rightarrow> string list \<Rightarrow> world \<times> download_list
     \<Rightarrow> py_error option \<times> world \<times> download_list" where
  "add_each_song env check [] st = (None, st)"
| "add_each_song env check (i # rest) st =
     (if check \<and> song_dir (env_tree env) i = None
      then add_each_song env check rest st
      else (case add_one_song env i st of
              (Some e, st1) \<Rightarrow> (Some e, st1)
            | (None, st1) \<Rightarrow> add_each_song env check rest st1))"

text \<open>
  \<^verbatim>\<open>list(SonglistParser.get_user_unlocks(self.user) & set(self.song_ids))\<close>: the
  requested strings that are unlocked, each once, in the order of the set.
\<close>

definition unlocked_ids :: "request_env \<Rightarrow> user option \<Rightarrow> string list \<Rightarrow> py_error + string list" where
  "unlocked_ids env usr song_ids =
     (case get_user_unlocks (env_cls env) (SINGLE_PACK_NAME env) usr of
        Inl e \<Rightarrow> Inl e
      | Inr unlocks \<Rightarrow> Inr (set_order env (remdups (filter (\<lambda>s. JStr s \<in> unlocks) song_ids))))"

text \<open>\<^verbatim>\<open>clear_download_token\<close>: a NULL \<^verbatim>\<open>time\<close> is not below anything.\<close>

definition clear_download_token :: "request_env \<Rightarrow> token_row list \<Rightarrow> token_row list" where
  "clear_download_token env tbl =
     filter (\<lambda>r. \<not> (case tk_time r of None \<Rightarrow> False
                      | Some t \<Rightarrow> t < env_now env - DOWNLOAD_TIME_GAP_LIMIT env)) tbl"

text \<open>
  \<^verbatim>\<open>insert_download_tokens\<close>: one \<^verbatim>\<open>insert or replace\<close> for each download, in order.
  The table is created outside this module; its replace key
  \<^verbatim>\<open>(user_id, song_id, file_name)\<close> is the one the specification gives. With no download
  the list comprehension never reads \<^verbatim>\<open>self.user.user_id\<close>.
\<close>

definition insert_token :: "int \<Rightarrow> user_download \<Rightarrow> token_row list \<Rightarrow> token_row list" where
  "insert_token uid x tbl =
     filter (\<lambda>r. \<not> (tk_user_id r = uid \<and> tk_song_id r = ud_song_id x \<and>
                      tk_file_name r = ud_file_name x)) tbl
     @ [\<lparr>tk_user_id = uid, tk_song_id = ud_song_id x, tk_file_name = ud_file_name x,
         tk_token = ud_token x, tk_time = ud_token_time x\<rparr>]"

definition insert_download_tokens ::
  "download_list \<Rightarrow> token_row list \<Rightarrow> py_error + token_row list" where
  "insert_download_tokens self tbl =
     (if downloads self = [] then Inr tbl
      else case dl_user self of
             None \<Rightarrow> Inl AttributeError
           | Some u \<Rightarrow> Inr (fold (insert_token (user_id u)) (downloads self) tbl))"

text \<open>The last statement of \<^verbatim>\<open>add_songs\<close>.\<close>

definition store_tokens ::
  "request_env \<Rightarrow> world \<times> download_list \<Rightarrow> py_error option \<times> world \<times> download_list" where
  "store_tokens env st =
     (case st of (w, self) \<Rightarrow>
        if dl_url_flag self then
          (let tbl = clear_download_token env (download_token w)
           in case insert_download_tokens self tbl of
                Inl e \<Rightarrow> (Some e, w\<lparr>download_token := tbl\<rparr>, self)
              | Inr tbl1 \<Rightarrow> (None, w\<lparr>download_token := tbl1\<rparr>, self))
        else (None, w, self))"

text \<open>
  \<^verbatim>\<open>add_songs(song_ids)\<close>, \<open>None\<close> for the default argument: the exception raised, if
  any, with the world and the object after it.
\<close>

definition add_songs ::
  "request_env \<Rightarrow> string list option \<Rightarrow> world \<times> download_list
     \<Rightarrow> py_error option \<times> world \<times> download_list" where
  "add_songs env song_ids st =
     (case st of (w, self0) \<Rightarrow>
        (let self = (if song_ids \<noteq> None then self0\<lparr>dl_song_ids := song_ids\<rparr> else self0);
             filtering = (DOWNLOAD_FORBID_WHEN_NO_ITEM env \<and> has_songlist (env_cls env))
         in if dl_song_ids self = None \<or> dl_song_ids self = Some [] then
              (case list_get_all_song_ids env w of
                 (ids, w1) \<Rightarrow>
                   (case (if filtering then unlocked_ids env (dl_user self) ids else Inr ids) of
                      Inl e \<Rightarrow> (Some e, w1, self\<lparr>dl_song_ids := Some ids\<rparr>)
                    | Inr ids1 \<Rightarrow>
                        (case add_each_song env False ids1 (w1, self\<lparr>dl_song_ids := Some ids1\<rparr>) of
                           (Some e, st1) \<Rightarrow> (Some e, st1)
                         | (None, st1) \<Rightarrow> store_tokens env st1)))
            else
              (case (if filtering then unlocked_ids env (dl_user self) (or_empty (dl_song_ids self))
                     else Inr (or_empty (dl_song_ids self))) of
                 Inl e \<Rightarrow> (Some e, w, self)
               | Inr ids1 \<Rightarrow>
                   (case add_each_song env True ids1 (w, self\<lparr>dl_song_ids := Some ids1\<rparr>) of
                      (Some e, st1) \<Rightarrow> (Some e, st1)
                    | (None, st1) \<Rightarrow> store_tokens env st1))))"

subsection \<open>Views and invariants of the metadata store\<close>

text \<open>The rows of the two tables without \<^verbatim>\<open>last_scan\<close> and \<^verbatim>\<open>last_seen\<close>.\<close>

definition songs_view :: "cache_db \<Rightarrow> (string \<times> int) list" where
  "songs_view db = map (\<lambda>r. (sr_song_id r, sr_dir_mtime_ns r)) (songs_tbl db)"

definition files_view :: "cache_db \<Rightarrow> (string \<times> string \<times> int \<times> int \<times> string option) list" where
  "files_view db =
     map (\<lambda>r. (fr_song_id r, fr_file_name r, fr_size r, fr_mtime_ns r, fr_md5 r)) (files_tbl db)"

text \<open>
  The store is up to date on a song: when its directory exists, the stored
  \<^verbatim>\<open>dir_mtime_ns\<close> is the directory's.
\<close>

definition synced :: "tree \<Rightarrow> cache_db \<Rightarrow> string \<Rightarrow> bool" where
  "synced t db s =
     (case song_dir t s of
        None \<Rightarrow> True
      | Some (m, es) \<Rightarrow>
          (case select_song db s of None \<Rightarrow> False | Some row \<Rightarrow> sr_dir_mtime_ns row = m))"

text \<open>The file names stored for a song.\<close>

definition names_of :: "cache_db \<Rightarrow> string \<Rightarrow> string set" where
  "names_of db s = set (map fr_file_name (filter (\<lambda>r. fr_song_id r = s) (files_tbl db)))"

text \<open>
  The call re-synchronises: no row of the song is stored, or its \<^verbatim>\<open>dir_mtime_ns\<close>
  differs from the argument.
\<close>

definition stale :: "cache_db \<Rightarrow> string \<Rightarrow> int \<Rightarrow> bool" where
  "stale db song_id dir_mtime_ns =
     (case select_song db song_id of None \<Rightarrow> True | Some row \<Rightarrow> sr_dir_mtime_ns row \<noteq> dir_mtime_ns)"

subsection \<open>A small deployment\<close>

text \<open>
  One song directory \<^verbatim>\<open>abc\<close> with two charts, the empty store, the store after
  \<open>sync_all\<close> without a catalogue, and a class whose catalogue allows \<^verbatim>\<open>0.aff\<close> and
  \<^verbatim>\<open>base.ogg\<close> for \<^verbatim>\<open>abc\<close> (bitmap 33).
\<close>

definition abc_root :: song_root where
  "abc_root =
     \<lparr>root_mtime_ns = 9,
      root_entries =
        [(''abc'', SongDir 5 [(''0.aff'', RegFile 10 1 ''d0''), (''1.aff'', RegFile 11 2 ''d1'')])]\<rparr>"

definition abc_tree :: tree where
  "abc_tree = Some abc_root"

definition empty_db :: cache_db where
  "empty_db = \<lparr>meta_tbl = [], songs_tbl = [], files_tbl = []\<rparr>"

definition abc_db :: cache_db where
  "abc_db =
     \<lparr>meta_tbl = [],
      songs_tbl = [\<lparr>sr_song_id = ''abc'', sr_dir_mtime_ns = 5, sr_last_scan = 100\<rparr>],
      files_tbl =
        [\<lparr>fr_song_id = ''abc'', fr_file_name = ''0.aff'', fr_size = 10,
          fr_mtime_ns = 1, fr_md5 = None, fr_last_seen = 100\<rparr>,
         \<lparr>fr_song_id = ''abc'', fr_file_name = ''1.aff'', fr_size = 11,
          fr_mtime_ns = 2, fr_md5 = None, fr_last_seen = 100\<rparr>]\<rparr>"

definition abc_class :: songlist where
  "abc_class = SonglistParser\<lparr>songs := [JStr ''abc'' \<mapsto> 33]\<rparr>"

text \<open>A root directory that holds a file and no directory.\<close>

definition flat_root :: song_root where
  "flat_root = \<lparr>root_mtime_ns = 12, root_entries = [(''readme.txt'', OtherNode)]\<rparr>"

section \<open>Token validity window\<close>



section \<open>The bitmap of a song without remote download\<close>

lemma bit_8_iff: "bit (8::int) n \<longleftrightarrow> n = 3"
proof -
  have "(8::int) = 2 ^ 3" by simp
  then show ?thesis by (simp only: bit_exp_iff) simp
qed

lemma bit_64_iff: "bit (64::int) n \<longleftrightarrow> n = 6"
proof -
  have "(64::int) = 2 ^ 6" by simp
  then show ?thesis by (simp only: bit_exp_iff) simp
qed

lemma bit_72_iff: "bit (72::int) n \<longleftrightarrow> n = 3 \<or> n = 6"
proof -
  have "(72::int) = 8 OR 64" by simp
  then show ?thesis by (simp only: bit_or_iff bit_8_iff bit_64_iff)
qed

lemma bit_128_iff: "bit (128::int) n \<longleftrightarrow> n = 7"
proof -
  have "(128::int) = 2 ^ 7" by simp
  then show ?thesis by (simp only: bit_exp_iff) simp
qed

lemma bit_256_iff: "bit (256::int) n \<longleftrightarrow> n = 8"
proof -
  have "(256::int) = 2 ^ 8" by simp
  then show ?thesis by (simp only: bit_exp_iff) simp
qed

lemma bit_512_iff: "bit (512::int) n \<longleftrightarrow> n = 9"
proof -
  have "(512::int) = 2 ^ 9" by simp
  then show ?thesis by (simp only: bit_exp_iff) simp
qed

lemma bit_1024_iff: "bit (1024::int) n \<longleftrightarrow> n = 10"
proof -
  have "(1024::int) = 2 ^ 10" by simp
  then show ?thesis by (simp only: bit_exp_iff) simp
qed

lemma parse_one_local_bits:
  "parse_one_local r ds = Inr r' \<Longrightarrow>
   bit r' n \<longleftrightarrow>
     bit r n \<or> (n = 3 \<and> list_ex rating_class_3 ds) \<or> (n = 6 \<and> list_ex rating_class_3_override ds)"
proof (induction ds arbitrary: r)
  case Nil
  then show ?case by simp
next
  case (Cons d ds)
  then show ?case
    by (auto simp: py_bind_def rating_class_3_def rating_class_3_override_def bit_or_iff
                   bit_8_iff bit_64_iff bit_72_iff
             split: sum.splits if_splits)
qed

lemma parse_one_extra_bits:
  "parse_one_extra r es = Inr r' \<Longrightarrow>
   bit r' n \<longleftrightarrow>
     bit r n \<or> (n = 7 \<and> list_ex (lists_file ''video.mp4'') es)
       \<or> (n = 8 \<and> list_ex (lists_file ''video_audio.ogg'') es)
       \<or> (n = 9 \<and> list_ex (lists_file ''video_720.mp4'') es)
       \<or> (n = 10 \<and> list_ex (lists_file ''video_1080.mp4'') es)"
proof (induction es arbitrary: r)
  case Nil
  then show ?case by simp
next
  case (Cons e es)
  then show ?case
    by (auto simp: py_bind_def lists_file_def FILE_NAMES_def bit_or_iff
                   bit_128_iff bit_256_iff bit_512_iff bit_1024_iff
             split: sum.splits if_splits)
qed

lemma parse_one_local_result:
  assumes "parse_one song = Inr (Some (k, r))"
    and "py_in ''remote_dl'' song = Inr False \<or>
         (\<exists>v. py_getitem song ''remote_dl'' = Inr v \<and> \<not> truthy v)"
  shows "\<exists>ds es r1.
           py_bind (py_get song ''difficulties'' (JList [])) py_iter = Inr ds \<and>
           py_bind (py_get song ''additional_files'' (JList [])) py_iter = Inr es \<and>
           parse_one_local 0 ds = Inr r1 \<and> parse_one_extra r1 es = Inr r"
  using assms
  by (auto simp: parse_one_def py_bind_def split: sum.splits if_splits)

text \<open>
  C2, as the code has it. For a catalogue entry whose \<^verbatim>\<open>remote_dl\<close> is absent or falsy
  and for which \<open>parse_one\<close> returns a bitmap: among the bits 0 to 6 only bit 3 and
  bit 6 can be set, bit 3 exactly when a difficulty has rating class 3 and bit 6 exactly
  when such a difficulty has a truthy \<^verbatim>\<open>audioOverride\<close>; the bits 7 to 10 are set from
  \<^verbatim>\<open>additional_files\<close> as for every other song; no further bit is set.
\<close>

theorem parse_one_without_remote_dl:
  assumes "parse_one song = Inr (Some (k, r))"
    and "py_in ''remote_dl'' song = Inr False \<or>
         (\<exists>v. py_getitem song ''remote_dl'' = Inr v \<and> \<not> truthy v)"
  shows "\<exists>ds es.
           py_bind (py_get song ''difficulties'' (JList [])) py_iter = Inr ds \<and>
           py_bind (py_get song ''additional_files'' (JList [])) py_iter = Inr es \<and>
           (\<forall>n. bit r n \<longleftrightarrow>
              (n = 3 \<and> list_ex rating_class_3 ds)
            \<or> (n = 6 \<and> list_ex rating_class_3_override ds)
            \<or> (n = 7 \<and> list_ex (lists_file ''video.mp4'') es)
            \<or> (n = 8 \<and> list_ex (lists_file ''video_audio.ogg'') es)
            \<or> (n = 9 \<and> list_ex (lists_file ''video_720.mp4'') es)
            \<or> (n = 10 \<and> list_ex (lists_file ''video_1080.mp4'') es))"
proof -
  from parse_one_local_result [OF assms] obtain ds es r1 where
    ds: "py_bind (py_get song ''difficulties'' (JList [])) py_iter = Inr ds" and
    es: "py_bind (py_get song ''additional_files'' (JList [])) py_iter = Inr es" and
    r1: "parse_one_local 0 ds = Inr r1" and r: "parse_one_extra r1 es = Inr r"
    by blast
  have "bit r n \<longleftrightarrow>
              (n = 3 \<and> list_ex rating_class_3 ds)
            \<or> (n = 6 \<and> list_ex rating_class_3_override ds)
            \<or> (n = 7 \<and> list_ex (lists_file ''video.mp4'') es)
            \<or> (n = 8 \<and> list_ex (lists_file ''video_audio.ogg'') es)
            \<or> (n = 9 \<and> list_ex (lists_file ''video_720.mp4'') es)
            \<or> (n = 10 \<and> list_ex (lists_file ''video_1080.mp4'') es)" for n
    using parse_one_local_bits [OF r1, of n] parse_one_extra_bits [OF r, of n] by simp
  with ds es show ?thesis by blast
qed

lemma parse_one_byd_video_song:
  "parse_one byd_video_song = Inr (Some (JStr ''abc'', 136))"
  by (simp add: byd_video_song_def parse_one_def py_bind_def FILE_NAMES_def)

theorem parse_one_without_remote_dl_witness:
  "parse_one byd_video_song = Inr (Some (JStr ''abc'', 136)) \<and>
   py_getitem byd_video_song ''remote_dl'' = Inr (JBool False) \<and>
   bit (136 :: int) 3 \<and> \<not> bit (136 :: int) 0 \<and> \<not> bit (136 :: int) 5 \<and> \<not> bit (136 :: int) 6"
proof -
  have rd: "py_getitem byd_video_song ''remote_dl'' = Inr (JBool False)"
    by (simp add: byd_video_song_def)
  then have "py_in ''remote_dl'' byd_video_song = Inr False \<or>
         (\<exists>v. py_getitem byd_video_song ''remote_dl'' = Inr v \<and> \<not> truthy v)"
    by simp
  from parse_one_without_remote_dl [OF parse_one_byd_video_song this]
  obtain ds es where
    ds: "py_bind (py_get byd_video_song ''difficulties'' (JList [])) py_iter = Inr ds" and
    bits: "\<And>n. bit (136 :: int) n \<longleftrightarrow>
              (n = 3 \<and> list_ex rating_class_3 ds)
            \<or> (n = 6 \<and> list_ex rating_class_3_override ds)
            \<or> (n = 7 \<and> list_ex (lists_file ''video.mp4'') es)
            \<or> (n = 8 \<and> list_ex (lists_file ''video_audio.ogg'') es)
            \<or> (n = 9 \<and> list_ex (lists_file ''video_720.mp4'') es)
            \<or> (n = 10 \<and> list_ex (lists_file ''video_1080.mp4'') es)"
    by blast
  from ds have ds_eq: "ds = [JObj [(''ratingClass'', JInt 0)], JObj [(''ratingClass'', JInt 3)]]"
    by (simp add: byd_video_song_def py_bind_def)
  have "bit (136 :: int) 3" "\<not> bit (136 :: int) 0" "\<not> bit (136 :: int) 5" "\<not> bit (136 :: int) 6"
    unfolding bits ds_eq
    by (simp_all add: rating_class_3_def rating_class_3_override_def)
  with parse_one_byd_video_song rd show ?thesis by simp
qed

text \<open>
  The claim as the specification words it fails on that entry: bit 7, neither bit 3 nor
  bit 6, is set in the bitmap of a song whose \<^verbatim>\<open>remote_dl\<close> is false.
\<close>

theorem parse_one_without_remote_dl_counterexample:
  "parse_one byd_video_song = Inr (Some (JStr ''abc'', 136)) \<and>
   py_getitem byd_video_song ''remote_dl'' = Inr (JBool False) \<and>
   bit (136 :: int) 7"
  by (simp add: byd_video_song_def parse_one_def py_bind_def FILE_NAMES_def)

section \<open>The songs a user has unlocked\<close>

lemma fold_pack_info:
  "fold (\<lambda>i r. case pack_info x (JStr i) of None \<Rightarrow> r | Some S \<Rightarrow> r \<union> S) ps A =
   A \<union> \<Union> (pack_songs x ` set ps)"
  by (induction ps arbitrary: A) (auto simp: pack_songs_def split: option.splits)

lemma set_filter_world:
  "set (filter (\<lambda>i. JStr i \<in> world_songs x) (user_world_songs u)) = user_world_unlocks x u"
  by (auto simp: user_world_unlocks_def)

text \<open>
  C3, as the code has it. \<open>get_user_unlocks\<close> of no user is the empty set. For a user
  it is the union of the songs of the user's packs, the single-pack songs among the
  user's singles, the world songs that the class and the user share with one final
  \<^verbatim>\<open>'3'\<close> cut from those that end in one, and the free songs; provided the empty
  string is not a shared world song, on which \<^verbatim>\<open>i[-1]\<close> raises an IndexError.
\<close>

theorem get_user_unlocks_value:
  "get_user_unlocks x single None = Inr {} \<and>
   ([] \<notin> user_world_unlocks x u \<longrightarrow>
      get_user_unlocks x single (Some u) =
        Inr (\<Union> (pack_songs x ` set (user_packs u))
             \<union> (pack_songs x single \<inter> JStr ` set (user_singles u))
             \<union> JStr ` cut_last_3 ` user_world_unlocks x u
             \<union> free_songs x)) \<and>
   ([] \<in> user_world_unlocks x u \<longrightarrow> get_user_unlocks x single (Some u) = Inl IndexError)"
proof -
  have none: "get_user_unlocks x single None = Inr {}"
    by (simp add: get_user_unlocks_def)
  have some: "get_user_unlocks x single (Some u) =
      (if [] \<in> user_world_unlocks x u then Inl IndexError
       else Inr (\<Union> (pack_songs x ` set (user_packs u))
             \<union> (pack_songs x single \<inter> JStr ` set (user_singles u))
             \<union> JStr ` cut_last_3 ` user_world_unlocks x u
             \<union> free_songs x))"
    unfolding get_user_unlocks_def Let_def fold_pack_info set_filter_world
    by (simp add: pack_songs_def split: option.splits)
  from none some show ?thesis by simp
qed

theorem get_user_unlocks_value_witness:
  "get_user_unlocks packs_class ''single'' (Some packs_user) =
     Inr {JStr ''a'', JStr ''b'', JStr ''d'', JStr ''f''} \<and>
   [] \<notin> user_world_unlocks packs_class packs_user"
proof -
  have w: "user_world_unlocks packs_class packs_user = {''f3''}"
    by (auto simp: user_world_unlocks_def packs_class_def packs_user_def)
  then have ne: "[] \<notin> user_world_unlocks packs_class packs_user"
    by simp
  have p: "\<Union> (pack_songs packs_class ` set (user_packs packs_user)) = {JStr ''a'', JStr ''b''}"
    by (simp add: pack_songs_def packs_class_def packs_user_def)
  have s: "pack_songs packs_class ''single'' \<inter> JStr ` set (user_singles packs_user) = {JStr ''d''}"
    by (auto simp: pack_songs_def packs_class_def packs_user_def)
  have f: "free_songs packs_class = {JStr ''f''}"
    by (simp add: packs_class_def)
  from get_user_unlocks_value [of packs_class "''single''" packs_user] ne
  have "get_user_unlocks packs_class ''single'' (Some packs_user) =
        Inr (\<Union> (pack_songs packs_class ` set (user_packs packs_user))
             \<union> (pack_songs packs_class ''single'' \<inter> JStr ` set (user_singles packs_user))
             \<union> JStr ` cut_last_3 ` user_world_unlocks packs_class packs_user
             \<union> free_songs packs_class)"
    by blast
  then have "get_user_unlocks packs_class ''single'' (Some packs_user) =
        Inr {JStr ''a'', JStr ''b'', JStr ''d'', JStr ''f''}"
    unfolding w p s f by (simp add: cut_last_3_def insert_commute)
  with ne show ?thesis by simp
qed

text \<open>
  With \<^verbatim>\<open>rstrip('3')\<close> the claim fails: for the world entry \<^verbatim>\<open>song33\<close> the code
  returns the song \<^verbatim>\<open>song3\<close>, where cutting every final \<^verbatim>\<open>'3'\<close> gives \<^verbatim>\<open>song\<close>.
\<close>

theorem get_user_unlocks_rstrip_counterexample:
  "get_user_unlocks song3_class ''single'' (Some song3_user) = Inr {JStr ''song3''} \<and>
   spec_user_unlocks song3_class ''single'' song3_user = {JStr ''song'', JStr ''song3''} \<and>
   get_user_unlocks song3_class ''single'' (Some song3_user) \<noteq>
     Inr (spec_user_unlocks song3_class ''single'' song3_user)"
proof -
  have w: "user_world_unlocks song3_class song3_user = {''song33''}"
    by (auto simp: user_world_unlocks_def song3_class_def song3_user_def)
  have a: "get_user_unlocks song3_class ''single'' (Some song3_user) = Inr {JStr ''song3''}"
    by (simp add: get_user_unlocks_def song3_class_def song3_user_def cut_last_3_def)
  have b: "spec_user_unlocks song3_class ''single'' song3_user = {JStr ''song'', JStr ''song3''}"
    unfolding spec_user_unlocks_def w
    by (simp add: song3_class_def song3_user_def pack_songs_def rstrip_3_def insert_commute)
  have "{JStr ''song3''} \<noteq> {JStr ''song'', JStr ''song3''}"
    by auto
  with a b show ?thesis by simp
qed

section \<open>The metadata store\<close>

subsection \<open>The small deployment, evaluated\<close>

lemma sync_all_Some:
  "t = Some root \<Longrightarrow> sync_all t cls pre now db =
     (let song_ids = map fst (filter (\<lambda>(name, node). is_dir node \<and> name \<noteq> ''.'' \<and> name \<noteq> ''..'')
                                (root_entries root));
          db1 = fold (sync_all_step t cls pre now) song_ids db
      in if song_ids \<noteq> []
         then db1\<lparr>songs_tbl := filter (\<lambda>r. sr_song_id r \<in> set song_ids) (songs_tbl db1),
                  files_tbl := filter (\<lambda>r. fr_song_id r \<in> set song_ids) (files_tbl db1)\<rparr>
         else db1\<lparr>songs_tbl := [], files_tbl := []\<rparr>)"
  by (simp add: sync_all_def)

lemma song_dir_abc:
  "song_dir abc_tree ''abc'' =
     Some (5, [(''0.aff'', RegFile 10 1 ''d0''), (''1.aff'', RegFile 11 2 ''d1'')])"
  by (simp add: song_dir_def abc_tree_def abc_root_def)

lemma available_0_no_catalogue: "is_available_file SonglistParser ''abc'' ''0.aff''"
  by (simp add: is_available_file_def SonglistParser_def FILE_NAMES_def)

lemma available_1_no_catalogue: "is_available_file SonglistParser ''abc'' ''1.aff''"
  by (simp add: is_available_file_def SonglistParser_def FILE_NAMES_def)

lemma available_0_abc_class: "is_available_file abc_class ''abc'' ''0.aff''"
  by (simp add: is_available_file_def abc_class_def SonglistParser_def FILE_NAMES_def)

lemma not_available_1_abc_class: "\<not> is_available_file abc_class ''abc'' ''1.aff''"
  by (simp add: is_available_file_def abc_class_def SonglistParser_def FILE_NAMES_def)

lemma song_file_abc_0: "song_file abc_tree ''abc'' ''0.aff'' = Some (10, 1, ''d0'')"
  by (simp add: song_file_def song_dir_abc)

lemma song_file_abc_1: "song_file abc_tree ''abc'' ''1.aff'' = Some (11, 2, ''d1'')"
  by (simp add: song_file_def song_dir_abc)

lemma sync_song_abc:
  "sync_song abc_tree SonglistParser False 100 ''abc'' (Some 5) empty_db = abc_db"
  by (simp add: sync_song_def song_dir_abc available_0_no_catalogue available_1_no_catalogue
        sync_file_def song_file_abc_0 song_file_abc_1 select_song_def select_file_def
        replace_song_def replace_file_def empty_db_def abc_db_def Let_def)

lemma sync_all_abc: "sync_all abc_tree SonglistParser False 100 empty_db = abc_db"
proof -
  have "fold (sync_all_step abc_tree SonglistParser False 100) [''abc''] empty_db = abc_db"
    by (simp add: sync_all_step_def song_dir_abc sync_song_abc)
  then show ?thesis
    by (simp add: sync_all_Some [OF abc_tree_def] abc_root_def Let_def abc_db_def)
qed

subsection \<open>An empty or absent root\<close>

text \<open>
  C4, as the code has it. When the root directory exists and none of its entries is a
  directory, \<open>sync_all\<close> leaves the tables \<^verbatim>\<open>songs\<close> and \<^verbatim>\<open>files\<close> empty (and
  \<^verbatim>\<open>meta\<close> as it was). When the root is absent, \<open>sync_all\<close> returns at its first
  test and changes no table.
\<close>

theorem sync_all_empty_or_absent_root:
  "(list_all (\<lambda>e. \<not> is_dir (snd e)) (root_entries root) \<longrightarrow>
      songs_tbl (sync_all (Some root) cls pre now db) = [] \<and>
      files_tbl (sync_all (Some root) cls pre now db) = [] \<and>
      meta_tbl (sync_all (Some root) cls pre now db) = meta_tbl db) \<and>
   sync_all None cls pre now db = db"
proof -
  have "filter (\<lambda>(name, node). is_dir node \<and> name \<noteq> ''.'' \<and> name \<noteq> ''..'') es = []"
    if "list_all (\<lambda>e. \<not> is_dir (snd e)) es" for es :: "(string \<times> root_node) list"
    using that by (induction es) auto
  then show ?thesis
    by (simp add: sync_all_def)
qed

theorem sync_all_empty_root_witness:
  "list_all (\<lambda>e. \<not> is_dir (snd e)) (root_entries flat_root) \<and>
   songs_tbl abc_db \<noteq> [] \<and>
   songs_tbl (sync_all (Some flat_root) SonglistParser False 200 abc_db) = [] \<and>
   files_tbl (sync_all (Some flat_root) SonglistParser False 200 abc_db) = []"
proof -
  have h: "list_all (\<lambda>e. \<not> is_dir (snd e)) (root_entries flat_root)"
    by (simp add: flat_root_def)
  with sync_all_empty_or_absent_root [of flat_root SonglistParser False 200 abc_db]
  show ?thesis by (simp add: abc_db_def)
qed

text \<open>
  With the root absent the claim as the specification words it fails: the rows that an
  earlier \<open>sync_all\<close> stored stay.
\<close>

theorem sync_all_absent_root_counterexample:
  "sync_all None SonglistParser False 200 abc_db = abc_db \<and>
   songs_tbl abc_db \<noteq> [] \<and> files_tbl abc_db \<noteq> []"
  by (simp add: sync_all_def abc_db_def)

section \<open>Parsing an absent or malformed catalogue\<close>





subsection \<open>Running sync_all twice\<close>

lemma songs_tbl_sync_file [simp]:
  "songs_tbl (sync_file t pre now s f db) = songs_tbl db"
  by (simp add: sync_file_def delete_file_def replace_file_def split: option.splits prod.splits)

lemma songs_tbl_fold_sync_file [simp]:
  "songs_tbl (fold (sync_file t pre now s) fs db) = songs_tbl db"
  by (induction fs arbitrary: db) simp_all

lemma meta_tbl_sync_file [simp]:
  "meta_tbl (sync_file t pre now s f db) = meta_tbl db"
  by (simp add: sync_file_def delete_file_def replace_file_def split: option.splits prod.splits)

lemma meta_tbl_fold_sync_file [simp]:
  "meta_tbl (fold (sync_file t pre now s) fs db) = meta_tbl db"
  by (induction fs arbitrary: db) simp_all

lemma find_filter_other:
  "(\<And>x. Q x \<Longrightarrow> P x) \<Longrightarrow> find Q (filter P xs) = find Q xs"
  by (induction xs) auto

lemma find_append_new:
  "find Q (xs @ [y]) = (case find Q xs of Some r \<Rightarrow> Some r | None \<Rightarrow> if Q y then Some y else None)"
  by (induction xs) auto

lemma find_filter_none: "(\<And>x. Q x \<Longrightarrow> \<not> P x) \<Longrightarrow> find Q (filter P xs) = None"
  by (induction xs) auto

lemma sync_all_step_synced_id: "synced t db s \<Longrightarrow> sync_all_step t cls pre now s db = db"
  by (auto simp: synced_def sync_all_step_def sync_song_def split: option.splits)

lemma select_song_sync_all_step_same: "synced t (sync_all_step t cls pre now s db) s"
  by (auto simp: synced_def sync_all_step_def sync_song_def select_song_def replace_song_def
       Let_def find_append_new find_filter_none split: option.splits)

lemma select_song_sync_all_step_other:
  "s' \<noteq> s \<Longrightarrow> select_song (sync_all_step t cls pre now s db) s' = select_song db s'"
  by (auto simp: sync_all_step_def sync_song_def select_song_def replace_song_def
       Let_def find_append_new find_filter_other split: option.splits)

lemma synced_sync_all_step: "synced t db s' \<Longrightarrow> synced t (sync_all_step t cls pre now s db) s'"
proof (cases "s' = s")
  case True
  then show ?thesis by (simp add: select_song_sync_all_step_same)
next
  case False
  assume "synced t db s'"
  with False show ?thesis
    by (auto simp: synced_def select_song_sync_all_step_other split: option.splits)
qed

lemma synced_fold:
  "\<forall>s \<in> G. synced t db s \<Longrightarrow>
   \<forall>s \<in> G \<union> set ss. synced t (fold (sync_all_step t cls pre now) ss db) s"
proof (induction ss arbitrary: db G)
  case Nil
  then show ?case by simp
next
  case (Cons a ss)
  have "\<forall>s \<in> insert a G. synced t (sync_all_step t cls pre now a db) s"
    using Cons.prems by (auto simp: select_song_sync_all_step_same synced_sync_all_step)
  from Cons.IH [OF this] show ?case by simp
qed

lemma fold_synced_id:
  "\<forall>s \<in> set ss. synced t db s \<Longrightarrow> fold (sync_all_step t cls pre now) ss db = db"
  by (induction ss) (simp_all add: sync_all_step_synced_id)

lemma find_song_filter:
  "s \<in> S \<Longrightarrow> find (\<lambda>r. sr_song_id r = s) (filter (\<lambda>r. sr_song_id r \<in> S) xs) =
     find (\<lambda>r. sr_song_id r = s) xs"
  by (induction xs) auto

lemma synced_filter:
  "s \<in> S \<Longrightarrow> synced t db s \<Longrightarrow>
   synced t (db\<lparr>songs_tbl := filter (\<lambda>r. sr_song_id r \<in> S) (songs_tbl db), files_tbl := F\<rparr>) s"
  by (auto simp: synced_def select_song_def find_song_filter split: option.splits)

lemma sync_all_twice:
  "sync_all t cls pre now2 (sync_all t cls pre now1 db) = sync_all t cls pre now1 db"
proof (cases t)
  case None
  then show ?thesis by (simp add: sync_all_def)
next
  case (Some root)
  define ss where "ss = map fst (filter (\<lambda>(name, node). is_dir node \<and> name \<noteq> ''.'' \<and> name \<noteq> ''..'')
                                     (root_entries root))"
  define d1 where "d1 = fold (sync_all_step t cls pre now1) ss db"
  show ?thesis
  proof (cases "ss = []")
    case True
    with Some show ?thesis
      by (simp add: sync_all_def ss_def [symmetric])
  next
    case False
    let ?D = "d1\<lparr>songs_tbl := filter (\<lambda>r. sr_song_id r \<in> set ss) (songs_tbl d1),
                  files_tbl := filter (\<lambda>r. fr_song_id r \<in> set ss) (files_tbl d1)\<rparr>"
    have D: "sync_all t cls pre now1 db = ?D"
      using Some False by (simp add: sync_all_def ss_def [symmetric] d1_def Let_def)
    have "\<forall>s \<in> {} \<union> set ss. synced t d1 s"
      unfolding d1_def by (rule synced_fold) simp
    then have "\<forall>s \<in> set ss. synced t ?D s"
      by (simp add: synced_filter)
    then have "fold (sync_all_step t cls pre now2) ss ?D = ?D"
      by (rule fold_synced_id)
    then have "sync_all t cls pre now2 ?D = ?D"
      using Some False by (simp add: sync_all_def ss_def [symmetric] Let_def)
    with D show ?thesis by simp
  qed
qed


text \<open>
  C6. On a tree that does not change, a second \<open>sync_all\<close> right after a first one
  leaves the tables \<^verbatim>\<open>songs\<close> and \<^verbatim>\<open>files\<close> with the same rows, the columns
  \<^verbatim>\<open>last_scan\<close> and \<^verbatim>\<open>last_seen\<close> set aside; indeed the second call changes nothing
  in the store, whatever the clock shows at either call.
\<close>

theorem sync_all_idempotent:
  "songs_view (sync_all t cls pre now2 (sync_all t cls pre now1 db)) =
     songs_view (sync_all t cls pre now1 db) \<and>
   files_view (sync_all t cls pre now2 (sync_all t cls pre now1 db)) =
     files_view (sync_all t cls pre now1 db) \<and>
   sync_all t cls pre now2 (sync_all t cls pre now1 db) = sync_all t cls pre now1 db"
  by (simp add: sync_all_twice)

theorem sync_all_idempotent_witness:
  "sync_all abc_tree SonglistParser False 100 empty_db = abc_db \<and>
   sync_all abc_tree SonglistParser False 200 abc_db = abc_db \<and>
   songs_view abc_db = [(''abc'', 5)]"
proof -
  from sync_all_idempotent [of abc_tree SonglistParser False 200 100 empty_db]
  have "sync_all abc_tree SonglistParser False 200 (sync_all abc_tree SonglistParser False 100 empty_db) =
        sync_all abc_tree SonglistParser False 100 empty_db"
    by simp
  then show ?thesis
    by (simp add: sync_all_abc songs_view_def abc_db_def)
qed


end
